theory Spec2Isabelle
  imports Complex_Main
    "HOL-Library.Char_ord"
    "HOL-Library.List_Lexorder"
    "HOL-Library.Product_Lexorder"
begin

section \<open>Common types\<close>

text \<open>
  A JavaScript \<open>Date\<close> is an instant, the number of milliseconds since the epoch; an absent
  date field of a document is \<open>None\<close>. A JavaScript \<open>Number\<close> that carries a quantity
  (carbon amounts, progress, thresholds) is a real number: NaN and the infinities are left
  out, and so is rounding. A MongoDB ObjectId is a natural number.
\<close>

type_synonym time = int
type_synonym objectId = nat

section \<open>Goal (models/Goal.js)\<close>

text \<open>The \<open>status\<close> enum of the goal schema.\<close>

datatype goal_status = Active | Completed | Paused | Cancelled

text \<open>One element of the \<open>milestones\<close> array of a goal.\<close>

record milestone =
  ms_title :: string
  ms_targetValue :: real
  ms_achievedValue :: real
  ms_achieved :: bool
  ms_achievedDate :: "time option"

text \<open>
  The goal document. The nested objects \<open>target\<close>, \<open>current\<close> and \<open>reminders\<close> are
  flattened: \<open>target.value\<close> is \<open>goal_target_value\<close>, and so on. \<open>createdAt\<close> and
  \<open>updatedAt\<close> come from the schema option \<open>timestamps: true\<close>.
\<close>

record goal =
  goal_id :: objectId
  goal_user :: objectId
  goal_title :: string
  goal_description :: string
  goal_category :: string
  goal_target_value :: real
  goal_target_unit :: string
  goal_target_timeframe :: string
  goal_current_value :: real
  goal_current_lastUpdated :: time
  goal_startDate :: time
  goal_endDate :: time
  goal_status :: goal_status
  goal_priority :: string
  goal_difficulty :: string
  goal_milestones :: "milestone list"
  goal_tags :: "string list"
  goal_isPublic :: bool
  goal_reminders_enabled :: bool
  goal_reminders_frequency :: string
  goal_reminders_lastReminder :: "time option"
  goal_notes :: string
  goal_createdAt :: time
  goal_updatedAt :: time

text \<open>
  \<open>this.save()\<close> on a modified goal: the document is written back, and the schema option
  \<open>timestamps: true\<close> makes the store stamp \<open>updatedAt\<close>. The write itself is taken to
  succeed.
\<close>

definition goal_save :: "time \<Rightarrow> goal \<Rightarrow> goal" where
  "goal_save now g = g\<lparr>goal_updatedAt := now\<rparr>"

text \<open>
  The body of the \<open>forEach\<close> callback of \<open>updateProgress\<close>, for one milestone; \<open>cur\<close> is
  \<open>this.current.value\<close>.
\<close>

definition milestone_step :: "time \<Rightarrow> real \<Rightarrow> milestone \<Rightarrow> milestone" where
  "milestone_step now cur m =
     (if \<not> ms_achieved m \<and> cur \<ge> ms_targetValue m
      then m\<lparr>ms_achieved := True, ms_achievedValue := ms_targetValue m,
              ms_achievedDate := Some now\<rparr>
      else m)"

text \<open>
  \<open>goalSchema.methods.updateProgress(newValue)\<close>. Every \<open>new Date()\<close> of one call reads
  the same instant \<open>now\<close>.
\<close>

definition Goal_updateProgress :: "time \<Rightarrow> real \<Rightarrow> goal \<Rightarrow> goal" where
  "Goal_updateProgress now newValue g =
     (let g1 = g\<lparr>goal_current_value := max 0 newValue, goal_current_lastUpdated := now\<rparr>;
          g2 = (if goal_current_value g1 \<ge> goal_target_value g1 \<and> goal_status g1 = Active
                then g1\<lparr>goal_status := Completed\<rparr> else g1);
          g3 = g2\<lparr>goal_milestones :=
                    map (milestone_step now (goal_current_value g2)) (goal_milestones g2)\<rparr>
      in goal_save now g3)"

text \<open>A goal with target value 100 and one milestone at 50, used in the worked examples.\<close>

definition goal100 :: goal where
  "goal100 = \<lparr>goal_id = 1, goal_user = 7, goal_title = ''Cut emissions'',
     goal_description = '''', goal_category = ''carbon_reduction'',
     goal_target_value = 100, goal_target_unit = ''kg'', goal_target_timeframe = ''monthly'',
     goal_current_value = 0, goal_current_lastUpdated = 0,
     goal_startDate = 0, goal_endDate = 1000, goal_status = Active,
     goal_priority = ''medium'', goal_difficulty = ''moderate'',
     goal_milestones = [\<lparr>ms_title = ''Half way'', ms_targetValue = 50, ms_achievedValue = 0,
        ms_achieved = False, ms_achievedDate = None\<rparr>],
     goal_tags = [], goal_isPublic = False, goal_reminders_enabled = True,
     goal_reminders_frequency = ''weekly'', goal_reminders_lastReminder = None,
     goal_notes = '''', goal_createdAt = 0, goal_updatedAt = 0\<rparr>"

section \<open>Achievement (models/Achievement.js)\<close>

text \<open>The enums of the achievement schema that the engine reads.\<close>

datatype metric =
  carbon_reduction | activities_count | streak_days | goals_completed
  | community_posts | education_modules

datatype timeframe = lifetime | daily | weekly | monthly | yearly

datatype rarity = common | uncommon | rare | epic | legendary

text \<open>
  The achievement document, with \<open>criteria\<close> and \<open>progress\<close> flattened
  (\<open>criteria.metric\<close> is \<open>criteria_metric\<close>, \<open>progress.current\<close> is \<open>progress_current\<close>).
  The free-form \<open>metadata\<close> object, which no method reads or writes, is left out.
\<close>

record achievement =
  ach_id :: objectId
  ach_user :: objectId
  ach_title :: string
  ach_description :: string
  ach_category :: string
  ach_type :: string
  criteria_metric :: metric
  criteria_threshold :: real
  criteria_unit :: string
  criteria_timeframe :: timeframe
  icon :: string
  badge :: string
  points :: real
  ach_rarity :: rarity
  isUnlocked :: bool
  unlockedAt :: "time option"
  progress_current :: real
  progress_required :: real
  progress_lastUpdated :: time
  ach_tags :: "string list"
  isHidden :: bool
  expiresAt :: "time option"
  isActive :: bool
  ach_createdAt :: time
  ach_updatedAt :: time

text \<open>\<open>this.save()\<close> on a modified achievement; the store stamps \<open>updatedAt\<close>.\<close>

definition achievement_save :: "time \<Rightarrow> achievement \<Rightarrow> achievement" where
  "achievement_save now a = a\<lparr>ach_updatedAt := now\<rparr>"

text \<open>\<open>achievementSchema.methods.updateProgress(newProgress)\<close>.\<close>

definition Achievement_updateProgress :: "time \<Rightarrow> real \<Rightarrow> achievement \<Rightarrow> achievement" where
  "Achievement_updateProgress now newProgress a =
     (let a1 = a\<lparr>progress_current := max 0 newProgress, progress_lastUpdated := now\<rparr>;
          a2 = (if progress_current a1 \<ge> progress_required a1 \<and> \<not> isUnlocked a1
                then a1\<lparr>isUnlocked := True, unlockedAt := Some now\<rparr> else a1)
      in achievement_save now a2)"

text \<open>
  \<open>achievementSchema.methods.unlock()\<close>. On an achievement that is unlocked already
  nothing is modified, and saving an unmodified document writes nothing.
\<close>

definition unlock :: "time \<Rightarrow> achievement \<Rightarrow> achievement" where
  "unlock now a =
     (if \<not> isUnlocked a
      then achievement_save now
             (a\<lparr>isUnlocked := True, unlockedAt := Some now,
                progress_current := progress_required a, progress_lastUpdated := now\<rparr>)
      else a)"

text \<open>A sequence of later \<open>updateProgress\<close> calls, each with its instant and its argument.\<close>

definition updateProgress_calls :: "(time \<times> real) list \<Rightarrow> achievement \<Rightarrow> achievement" where
  "updateProgress_calls cs a = fold (\<lambda>(t, p). Achievement_updateProgress t p) cs a"

text \<open>
  The achievement of the end-to-end example: metric \<open>carbon_reduction\<close>, threshold 2,
  timeframe \<open>lifetime\<close>, required progress 2, not yet unlocked.
\<close>

definition ach_carbon :: achievement where
  "ach_carbon = \<lparr>ach_id = 1, ach_user = 7, ach_title = ''Two tons down'',
     ach_description = ''Reduce your footprint by two tons'',
     ach_category = ''carbon_reduction'', ach_type = ''carbon_reduction'',
     criteria_metric = carbon_reduction, criteria_threshold = 2, criteria_unit = ''tons'',
     criteria_timeframe = lifetime, icon = ''leaf'', badge = ''bronze'', points = 10,
     ach_rarity = common, isUnlocked = False, unlockedAt = None,
     progress_current = 0, progress_required = 2, progress_lastUpdated = 0,
     ach_tags = [], isHidden = False, expiresAt = None, isActive = True,
     ach_createdAt = 0, ach_updatedAt = 0\<rparr>"

section \<open>User and Activity (models/User.js, models/Activity.js)\<close>

text \<open>The part of the user document that the engine reads: \<open>_id\<close> and \<open>carbonFootprint\<close>.\<close>

record user =
  user_id :: objectId
  carbonFootprint_total :: real
  carbonFootprint_baseline :: real

text \<open>The \<open>status\<close> enum of the activity schema.\<close>

datatype activity_status = activity_active | activity_completed | activity_cancelled

text \<open>The activity document, with the fields the queries of the engine look at.\<close>

record activity =
  act_user :: objectId
  act_category :: string
  act_date :: time
  act_carbon_value :: real
  act_carbon_unit :: string
  act_status :: activity_status

section \<open>Dates\<close>

text \<open>
  The calendar arithmetic of the host's \<open>Date\<close> objects, which depends on the server's time
  zone, is a parameter of the engine:
  \<^item> \<open>startOfDay d\<close> is \<open>d.setHours(0, 0, 0, 0)\<close>;
  \<^item> \<open>addDays n d\<close> is \<open>d.setDate(d.getDate() + n)\<close>;
  \<^item> \<open>addMonths n d\<close> is \<open>d.setMonth(d.getMonth() + n)\<close>;
  \<^item> \<open>addYears n d\<close> is \<open>d.setFullYear(d.getFullYear() + n)\<close>.
\<close>

record calendar =
  startOfDay :: "time \<Rightarrow> time"
  addDays :: "int \<Rightarrow> time \<Rightarrow> time"
  addMonths :: "int \<Rightarrow> time \<Rightarrow> time"
  addYears :: "int \<Rightarrow> time \<Rightarrow> time"

definition msPerDay :: int where
  "msPerDay = 86400000"

text \<open>
  The proleptic Gregorian calendar: the number of days from 1970-01-01 to the day
  \<open>d\<close> of month \<open>m\<close> (1 to 12) of year \<open>y\<close>, and back. A day beyond the end of
  the month counts on into the next one, as \<open>Date\<close> does.
\<close>

definition days_from_civil :: "int \<Rightarrow> int \<Rightarrow> int \<Rightarrow> int" where
  "days_from_civil y m d =
     (let y' = (if m \<le> 2 then y - 1 else y);
          era = y' div 400;
          yoe = y' - era * 400;
          mp = (m + 9) mod 12;
          doy = (153 * mp + 2) div 5 + d - 1;
          doe = yoe * 365 + yoe div 4 - yoe div 100 + doy
      in era * 146097 + doe - 719468)"

definition civil_from_days :: "int \<Rightarrow> int \<times> int \<times> int" where
  "civil_from_days z =
     (let z' = z + 719468;
          era = z' div 146097;
          doe = z' - era * 146097;
          yoe = (doe - doe div 1460 + doe div 36524 - doe div 146096) div 365;
          doy = doe - (365 * yoe + yoe div 4 - yoe div 100);
          mp = (5 * doy + 2) div 153;
          d = doy - (153 * mp + 2) div 5 + 1;
          m = (if mp < 10 then mp + 3 else mp - 9)
      in ((if m \<le> 2 then yoe + era * 400 + 1 else yoe + era * 400), m, d))"

text \<open>The calendar of a server whose local time zone is UTC.\<close>

definition utc_addMonths :: "int \<Rightarrow> time \<Rightarrow> time" where
  "utc_addMonths n t =
     (case civil_from_days (t div msPerDay) of
        (y, m, d) \<Rightarrow>
          (let mi = m - 1 + n
           in (days_from_civil (y + mi div 12) (mi mod 12 + 1) 1 + d - 1) * msPerDay
              + t mod msPerDay))"

definition utc_addYears :: "int \<Rightarrow> time \<Rightarrow> time" where
  "utc_addYears n t =
     (case civil_from_days (t div msPerDay) of
        (y, m, d) \<Rightarrow> (days_from_civil (y + n) m 1 + d - 1) * msPerDay + t mod msPerDay)"

definition utc :: calendar where
  "utc = \<lparr>startOfDay = (\<lambda>t. t - t mod msPerDay),
           addDays = (\<lambda>n t. t + n * msPerDay),
           addMonths = utc_addMonths,
           addYears = utc_addYears\<rparr>"

section \<open>Metric evaluation (routes/achievements.js)\<close>

text \<open>
  A query of the store either answers or is rejected; a rejected promise is an exception
  at the \<open>await\<close>. The two collections that \<open>calculateAchievementProgress\<close> queries are
  given by what a query on them yields during the request: the documents of the
  collection, or the error.
\<close>

datatype error = QueryRejected

record store =
  Activity_collection :: "error + activity list"
  Goal_collection :: "error + goal list"

text \<open>The \<open>switch (timeframe)\<close> that sets \<open>startDate\<close>.\<close>

definition startDate_of :: "calendar \<Rightarrow> time \<Rightarrow> timeframe \<Rightarrow> time" where
  "startDate_of cal now tf =
     (case tf of
        daily \<Rightarrow> startOfDay cal now
      | weekly \<Rightarrow> addDays cal (- 7) now
      | monthly \<Rightarrow> addMonths cal (- 1) now
      | yearly \<Rightarrow> addYears cal (- 1) now
      | lifetime \<Rightarrow> 0)"

text \<open>
  The filter \<open>{ user: user._id, date: { $gte: startDate }, status: 'active' }\<close> of the two
  activity queries.
\<close>

definition activity_matches :: "objectId \<Rightarrow> time \<Rightarrow> activity \<Rightarrow> bool" where
  "activity_matches uid startDate x \<longleftrightarrow>
     act_user x = uid \<and> act_date x \<ge> startDate \<and> act_status x = activity_active"

text \<open>\<open>Activity.countDocuments\<close> with that filter.\<close>

definition Activity_countDocuments :: "objectId \<Rightarrow> time \<Rightarrow> activity list \<Rightarrow> nat" where
  "Activity_countDocuments uid startDate acts = length (filter (activity_matches uid startDate) acts)"

text \<open>\<open>Activity.find\<close> with that filter, sorted by \<open>date\<close> descending.\<close>

definition Activity_find :: "objectId \<Rightarrow> time \<Rightarrow> activity list \<Rightarrow> activity list" where
  "Activity_find uid startDate acts =
     rev (sort_key act_date (filter (activity_matches uid startDate) acts))"

text \<open>
  \<open>Goal.countDocuments({ user, status: 'completed', updatedAt: { $gte: startDate } })\<close>.
\<close>

definition Goal_countDocuments :: "objectId \<Rightarrow> time \<Rightarrow> goal list \<Rightarrow> nat" where
  "Goal_countDocuments uid startDate gs =
     length (filter (\<lambda>g. goal_user g = uid \<and> goal_status g = Completed
                          \<and> goal_updatedAt g \<ge> startDate) gs)"

text \<open>
  The \<open>for (let i = 0; i < 365; i++)\<close> loop of the \<open>streak_days\<close> case. The first argument
  counts the iterations that are left, \<open>currentDate\<close> and \<open>streak\<close> are the loop's
  variables; \<open>break\<close> returns the streak.
\<close>

fun streak_loop :: "calendar \<Rightarrow> activity list \<Rightarrow> nat \<Rightarrow> time \<Rightarrow> nat \<Rightarrow> nat" where
  "streak_loop cal activities 0 currentDate streak = streak"
| "streak_loop cal activities (Suc n) currentDate streak =
     (let dayActivities =
            filter (\<lambda>x. startOfDay cal (act_date x) = currentDate) activities
      in if length dayActivities > 0
         then streak_loop cal activities n (addDays cal (- 1) currentDate) (streak + 1)
         else streak)"

text \<open>The streak of the fetched activities, counted back from today.\<close>

definition streak_of :: "calendar \<Rightarrow> time \<Rightarrow> activity list \<Rightarrow> nat" where
  "streak_of cal now activities = streak_loop cal activities 365 (startOfDay cal now) 0"

text \<open>
  The \<open>switch (metric)\<close>: the value of \<open>progress\<close> before the final clamp, or the error
  of the query.
\<close>

definition metric_progress ::
  "calendar \<Rightarrow> time \<Rightarrow> user \<Rightarrow> store \<Rightarrow> achievement \<Rightarrow> error + real" where
  "metric_progress cal now u st a =
     (let startDate = startDate_of cal now (criteria_timeframe a)
      in case criteria_metric a of
           carbon_reduction \<Rightarrow>
             Inr (max 0 (carbonFootprint_baseline u - carbonFootprint_total u))
         | activities_count \<Rightarrow>
             (case Activity_collection st of
                Inl e \<Rightarrow> Inl e
              | Inr acts \<Rightarrow> Inr (real (Activity_countDocuments (user_id u) startDate acts)))
         | streak_days \<Rightarrow>
             (case Activity_collection st of
                Inl e \<Rightarrow> Inl e
              | Inr acts \<Rightarrow> Inr (real (streak_of cal now (Activity_find (user_id u) startDate acts))))
         | goals_completed \<Rightarrow>
             (case Goal_collection st of
                Inl e \<Rightarrow> Inl e
              | Inr gs \<Rightarrow> Inr (real (Goal_countDocuments (user_id u) startDate gs)))
         | community_posts \<Rightarrow> Inr 0
         | education_modules \<Rightarrow> Inr 0)"

text \<open>\<open>calculateAchievementProgress(user, achievement)\<close>.\<close>

definition calculateAchievementProgress ::
  "calendar \<Rightarrow> time \<Rightarrow> user \<Rightarrow> store \<Rightarrow> achievement \<Rightarrow> error + real" where
  "calculateAchievementProgress cal now u st a =
     (case metric_progress cal now u st a of
        Inl e \<Rightarrow> Inl e
      | Inr progress \<Rightarrow> Inr (min progress (criteria_threshold a)))"

section \<open>The achievement check (routes/achievements.js)\<close>

text \<open>
  The \<open>rarity\<close> field is stored as the string of the enum, and that string is what the
  store compares when it sorts on the field.
\<close>

fun rarity_name :: "rarity \<Rightarrow> string" where
  "rarity_name common = ''common''"
| "rarity_name uncommon = ''uncommon''"
| "rarity_name rare = ''rare''"
| "rarity_name epic = ''epic''"
| "rarity_name legendary = ''legendary''"

text \<open>The filter of \<open>getUserAvailableAchievements\<close>; \<open>now\<close> is its \<open>new Date()\<close>.\<close>

definition available :: "time \<Rightarrow> objectId \<Rightarrow> achievement \<Rightarrow> bool" where
  "available now userId a \<longleftrightarrow>
     ach_user a = userId \<and> isUnlocked a = False \<and> isHidden a = False \<and> isActive a = True
     \<and> (case expiresAt a of None \<Rightarrow> True | Some e \<Rightarrow> e > now)"

text \<open>
  \<open>achievementSchema.statics.getUserAvailableAchievements(userId)\<close> on the achievement
  collection \<open>db\<close>: the filter, then \<open>.sort({ rarity: 1, createdAt: 1 })\<close>, ascending on the
  rarity string and then on \<open>createdAt\<close>. Documents that agree on both keys keep the order
  of the collection.
\<close>

definition getUserAvailableAchievements ::
  "time \<Rightarrow> objectId \<Rightarrow> achievement list \<Rightarrow> achievement list" where
  "getUserAvailableAchievements now userId db =
     sort_key (\<lambda>a. (rarity_name (ach_rarity a), ach_createdAt a))
       (filter (available now userId) db)"

text \<open>The virtuals \<open>progressPercentage\<close> and \<open>isExpired\<close> of an achievement.\<close>

definition progressPercentage :: "achievement \<Rightarrow> real" where
  "progressPercentage a =
     (if progress_required a = 0 then 0
      else min (progress_current a / progress_required a * 100) 100)"

definition isExpired :: "time \<Rightarrow> achievement \<Rightarrow> bool" where
  "isExpired now a = (case expiresAt a of None \<Rightarrow> False | Some e \<Rightarrow> now > e)"

text \<open>
  \<open>toResponseFormat()\<close> copies the fields of the document and adds the two virtuals.
\<close>

record achievement_view =
  view_document :: achievement
  view_percentage :: real
  view_isExpired :: bool

definition toResponseFormat :: "time \<Rightarrow> achievement \<Rightarrow> achievement_view" where
  "toResponseFormat now a =
     \<lparr>view_document = a, view_percentage = progressPercentage a, view_isExpired = isExpired now a\<rparr>"

text \<open>
  The \<open>for (const achievement of availableAchievements)\<close> loop of the handler of
  \<open>POST /api/achievements/check\<close>. \<open>newlyUnlocked\<close> is the array built so far. The result
  is the documents of the batch as the loop leaves them in the store, and either the final
  \<open>newlyUnlocked\<close> or the exception that ended the loop. The test
  \<open>!achievement.unlockedAt\<close> holds when the field is absent, a \<open>Date\<close> object being truthy.
\<close>

fun check_loop ::
  "calendar \<Rightarrow> time \<Rightarrow> user \<Rightarrow> store \<Rightarrow> achievement list \<Rightarrow> achievement_view list
     \<Rightarrow> achievement list \<times> (error + achievement_view list)" where
  "check_loop cal now u st [] newlyUnlocked = ([], Inr newlyUnlocked)"
| "check_loop cal now u st (achievement # rest) newlyUnlocked =
     (case calculateAchievementProgress cal now u st achievement of
        Inl e \<Rightarrow> (achievement # rest, Inl e)
      | Inr progress \<Rightarrow>
          if progress \<noteq> progress_current achievement
          then (let achievement' = Achievement_updateProgress now progress achievement;
                    newlyUnlocked' =
                      (if isUnlocked achievement' \<and> unlockedAt achievement' = None
                       then newlyUnlocked @ [toResponseFormat now achievement']
                       else newlyUnlocked)
                in case check_loop cal now u st rest newlyUnlocked' of
                     (docs, r) \<Rightarrow> (achievement' # docs, r))
          else (case check_loop cal now u st rest newlyUnlocked of
                  (docs, r) \<Rightarrow> (achievement # docs, r)))"

text \<open>
  The response of the handler: the JSON body with \<open>newlyUnlocked\<close> and \<open>totalUnlocked\<close>, or
  status 500 with \<open>{ error: 'Server error' }\<close> from the \<open>catch\<close> around the whole handler.
\<close>

datatype response =
  Updated (body_newlyUnlocked: "achievement_view list") (body_totalUnlocked: nat)
  | ServerError

text \<open>
  The handler of \<open>POST /api/achievements/check\<close> for the authenticated user \<open>u\<close>, on the
  achievement collection \<open>db\<close>: the documents of the batch after the request, and the
  response.
\<close>

definition check ::
  "calendar \<Rightarrow> time \<Rightarrow> user \<Rightarrow> store \<Rightarrow> achievement list \<Rightarrow> achievement list \<times> response" where
  "check cal now u st db =
     (let availableAchievements = getUserAvailableAchievements now (user_id u) db
      in case check_loop cal now u st availableAchievements [] of
           (docs, Inl e) \<Rightarrow> (docs, ServerError)
         | (docs, Inr newlyUnlocked) \<Rightarrow> (docs, Updated newlyUnlocked (length newlyUnlocked)))"

text \<open>
  The user of the end-to-end example, with baseline 10 and current total 7, and a store
  whose queries answer with no documents.
\<close>

definition user_10_7 :: user where
  "user_10_7 = \<lparr>user_id = 7, carbonFootprint_total = 7, carbonFootprint_baseline = 10\<rparr>"

definition empty_store :: store where
  "empty_store = \<lparr>Activity_collection = Inr [], Goal_collection = Inr []\<rparr>"

text \<open>
  The documents that the activity queries of \<open>calculateAchievementProgress\<close> match for the
  user and the achievement's timeframe: the user's active activities dated in the window.
\<close>

definition matching_activities ::
  "calendar \<Rightarrow> time \<Rightarrow> user \<Rightarrow> achievement \<Rightarrow> activity list \<Rightarrow> activity list" where
  "matching_activities cal now u a acts =
     filter (activity_matches (user_id u) (startDate_of cal now (criteria_timeframe a))) acts"

section \<open>The streak as the specification words it\<close>

text \<open>
  Following the specification's words, not the code: the calendar day \<open>j\<close> days before
  today (today truncated to its date, then one calendar day back \<open>j\<close> times); a day has
  an activity when the date of some activity, truncated to its calendar day, is that day;
  the streak is the number of consecutive days, starting from today and walking back, that
  have an activity, ending at the first day without one or after 365 days.
\<close>

definition spec_day :: "calendar \<Rightarrow> time \<Rightarrow> nat \<Rightarrow> time" where
  "spec_day cal now j = ((addDays cal (- 1)) ^^ j) (startOfDay cal now)"

definition spec_dayHasActivity :: "calendar \<Rightarrow> activity list \<Rightarrow> time \<Rightarrow> bool" where
  "spec_dayHasActivity cal acts day \<longleftrightarrow> (\<exists>x \<in> set acts. startOfDay cal (act_date x) = day)"

definition spec_streak :: "calendar \<Rightarrow> time \<Rightarrow> activity list \<Rightarrow> nat" where
  "spec_streak cal now acts =
     length (takeWhile (\<lambda>j. spec_dayHasActivity cal acts (spec_day cal now j)) [0..<365])"

section \<open>Worked examples\<close>

text \<open>
  The instant of the examples is 2023-11-14T22:13:20Z; in UTC that day starts at
  1699920000000.
\<close>

definition example_now :: time where
  "example_now = 1700000000000"

definition activity_at :: "objectId \<Rightarrow> time \<Rightarrow> activity_status \<Rightarrow> activity" where
  "activity_at uid t s =
     \<lparr>act_user = uid, act_category = ''transportation'', act_date = t,
      act_carbon_value = 1, act_carbon_unit = ''kg'', act_status = s\<rparr>"

text \<open>
  Activities of user 7 today (two of them), yesterday, two days ago and four days ago;
  three days ago there is only a cancelled activity of user 7 and an activity of user 8.
\<close>

definition acts_streak :: "activity list" where
  "acts_streak =
     [activity_at 7 1699930000000 activity_active,
      activity_at 7 1699950000000 activity_active,
      activity_at 7 1699837200000 activity_active,
      activity_at 7 1699797200000 activity_active,
      activity_at 7 1699670000000 activity_cancelled,
      activity_at 8 1699680000000 activity_active,
      activity_at 7 1699574401000 activity_active]"

text \<open>The same without the two activities of today.\<close>

definition acts_no_today :: "activity list" where
  "acts_no_today =
     [activity_at 7 1699837200000 activity_active,
      activity_at 7 1699797200000 activity_active,
      activity_at 7 1699574401000 activity_active]"

definition store_streak :: store where
  "store_streak = \<lparr>Activity_collection = Inr acts_streak, Goal_collection = Inr []\<rparr>"

definition store_no_today :: store where
  "store_no_today = \<lparr>Activity_collection = Inr acts_no_today, Goal_collection = Inr []\<rparr>"

text \<open>A store whose activity queries are rejected.\<close>

definition failing_store :: store where
  "failing_store = \<lparr>Activity_collection = Inl QueryRejected, Goal_collection = Inr []\<rparr>"

text \<open>An achievement on a streak of 30 days over the lifetime timeframe.\<close>

definition ach_streak :: achievement where
  "ach_streak = ach_carbon\<lparr>ach_id := 4, ach_title := ''Thirty days in a row'',
     criteria_metric := streak_days, criteria_threshold := 30, criteria_unit := ''days'',
     progress_required := 30\<rparr>"

text \<open>An achievement on five activities, created after \<open>ach_carbon\<close>, and a third one.\<close>

definition ach_count :: achievement where
  "ach_count = ach_carbon\<lparr>ach_id := 2, ach_title := ''Five activities'',
     criteria_metric := activities_count, criteria_threshold := 5, criteria_unit := ''count'',
     progress_required := 5, ach_createdAt := 1\<rparr>"

definition ach_carbon_later :: achievement where
  "ach_carbon_later = ach_carbon\<lparr>ach_id := 3, ach_createdAt := 2\<rparr>"

text \<open>Five eligible achievements of user 7, one of each rarity, created in the order of the enum.\<close>

definition with_rarity :: "objectId \<Rightarrow> rarity \<Rightarrow> time \<Rightarrow> achievement" where
  "with_rarity i r t = ach_carbon\<lparr>ach_id := i, ach_rarity := r, ach_createdAt := t\<rparr>"

definition db_rarities :: "achievement list" where
  "db_rarities =
     [with_rarity 1 common 1, with_rarity 2 uncommon 2, with_rarity 3 rare 3,
      with_rarity 4 epic 4, with_rarity 5 legendary 5]"

section \<open>Properties of Goal.updateProgress\<close>

lemma Goal_updateProgress_current:
  "goal_current_value (Goal_updateProgress now v g) = max 0 v"
  by (simp add: Goal_updateProgress_def goal_save_def Let_def)

lemma Goal_updateProgress_status:
  "goal_status (Goal_updateProgress now v g) =
     (if max 0 v \<ge> goal_target_value g \<and> goal_status g = Active then Completed
      else goal_status g)"
  by (simp add: Goal_updateProgress_def goal_save_def Let_def)

lemma Goal_updateProgress_milestones:
  "goal_milestones (Goal_updateProgress now v g) =
     map (milestone_step now (max 0 v)) (goal_milestones g)"
  by (simp add: Goal_updateProgress_def goal_save_def Let_def)

text \<open>
  C7. \<open>Goal.updateProgress(newValue)\<close> sets \<open>current.value\<close> to \<open>max(0, newValue)\<close>; the
  status afterwards is \<open>completed\<close> exactly when the new current value reaches the target
  while the status was \<open>active\<close>, or the status was \<open>completed\<close> already; a paused or
  cancelled goal keeps its status; a completed goal stays completed whatever value a later
  call passes. On the goal with target 100: \<open>updateProgress(100)\<close> completes it and a
  following \<open>updateProgress(50)\<close> leaves it completed.
\<close>

theorem Goal_updateProgress_completion:
  "goal_current_value (Goal_updateProgress now v g) = max 0 v
   \<and> (goal_status (Goal_updateProgress now v g) = Completed
        \<longleftrightarrow> (max 0 v \<ge> goal_target_value g \<and> goal_status g = Active)
            \<or> goal_status g = Completed)
   \<and> (goal_status g = Paused \<longrightarrow> goal_status (Goal_updateProgress now v g) = Paused)
   \<and> (goal_status g = Cancelled \<longrightarrow> goal_status (Goal_updateProgress now v g) = Cancelled)
   \<and> (goal_status g = Completed \<longrightarrow>
        goal_status (Goal_updateProgress now' v' (Goal_updateProgress now v g)) = Completed)
   \<and> goal_status (Goal_updateProgress 10 100 goal100) = Completed
   \<and> goal_status (Goal_updateProgress 20 50 (Goal_updateProgress 10 100 goal100)) = Completed
   \<and> goal_current_value (Goal_updateProgress 20 50 (Goal_updateProgress 10 100 goal100)) = 50"
  by (auto simp: Goal_updateProgress_current Goal_updateProgress_status goal100_def)

theorem Goal_updateProgress_completion_witness:
  "goal_status (Goal_updateProgress 10 100 goal100) = Completed
   \<and> goal_status (Goal_updateProgress 20 50 (Goal_updateProgress 10 100 goal100)) = Completed
   \<and> goal_status (goal100\<lparr>goal_status := Paused\<rparr>) = Paused
   \<and> goal_status (Goal_updateProgress 10 100 (goal100\<lparr>goal_status := Paused\<rparr>)) = Paused"
  using Goal_updateProgress_completion [of 10 100 "goal100\<lparr>goal_status := Paused\<rparr>" 20 50]
  by (simp add: goal100_def)

lemma milestone_step_achieved:
  "ms_achieved m \<Longrightarrow> milestone_step now cur m = m"
  by (simp add: milestone_step_def)

lemma milestone_step_fires:
  "\<not> ms_achieved m \<Longrightarrow> ms_targetValue m \<le> cur \<Longrightarrow>
   milestone_step now cur m =
     m\<lparr>ms_achieved := True, ms_achievedValue := ms_targetValue m, ms_achievedDate := Some now\<rparr>"
  by (simp add: milestone_step_def)

lemma milestone_step_twice:
  "ms_targetValue m \<le> cur \<Longrightarrow>
   milestone_step now' cur (milestone_step now cur m) = milestone_step now cur m"
  by (simp add: milestone_step_def)

lemma milestone_step_keeps:
  "ms_title (milestone_step now cur m) = ms_title m
   \<and> ms_targetValue (milestone_step now cur m) = ms_targetValue m"
  by (simp add: milestone_step_def)

text \<open>
  C9. After \<open>Goal.updateProgress(v)\<close> the goal has the same number of milestones, and for
  the milestone at every position: if it was not achieved and its \<open>targetValue\<close> is at most
  the new \<open>current.value\<close>, it is achieved, its \<open>achievedValue\<close> is its \<open>targetValue\<close> and
  its \<open>achievedDate\<close> is the instant of the call; if it was achieved, it is left as it was
  (so it never reverts, whatever the value); and if the value satisfies it, a second call
  with the same value at a later instant leaves it exactly as the first call did, with the
  same \<open>achievedDate\<close> and \<open>achievedValue\<close>. On the goal with a milestone at 50: a call
  with 60 at instant 10 achieves it with value 50 and date 10, and a second call with 60 at
  instant 20 keeps date 10.
\<close>

theorem Goal_updateProgress_milestone_sweep:
  "length (goal_milestones (Goal_updateProgress now v g)) = length (goal_milestones g)
   \<and> (\<forall>i < length (goal_milestones g).
        (\<not> ms_achieved (goal_milestones g ! i) \<and> ms_targetValue (goal_milestones g ! i) \<le> max 0 v
           \<longrightarrow> ms_achieved (goal_milestones (Goal_updateProgress now v g) ! i)
             \<and> ms_achievedValue (goal_milestones (Goal_updateProgress now v g) ! i)
                 = ms_targetValue (goal_milestones g ! i)
             \<and> ms_achievedDate (goal_milestones (Goal_updateProgress now v g) ! i) = Some now)
      \<and> (ms_achieved (goal_milestones g ! i)
           \<longrightarrow> goal_milestones (Goal_updateProgress now v g) ! i = goal_milestones g ! i)
      \<and> (ms_targetValue (goal_milestones g ! i) \<le> max 0 v
           \<longrightarrow> goal_milestones (Goal_updateProgress now' v (Goal_updateProgress now v g)) ! i
                 = goal_milestones (Goal_updateProgress now v g) ! i
             \<and> ms_achieved (goal_milestones (Goal_updateProgress now v g) ! i)))
   \<and> map ms_achieved (goal_milestones (Goal_updateProgress 10 60 goal100)) = [True]
   \<and> map ms_achievedValue (goal_milestones (Goal_updateProgress 10 60 goal100)) = [50]
   \<and> map ms_achievedDate (goal_milestones (Goal_updateProgress 10 60 goal100)) = [Some 10]
   \<and> map ms_achievedDate
        (goal_milestones (Goal_updateProgress 20 60 (Goal_updateProgress 10 60 goal100)))
       = [Some 10]"
proof -
  have len: "length (goal_milestones (Goal_updateProgress now v g)) = length (goal_milestones g)"
    by (simp add: Goal_updateProgress_milestones)
  have each: "(\<not> ms_achieved (goal_milestones g ! i)
                 \<and> ms_targetValue (goal_milestones g ! i) \<le> max 0 v
           \<longrightarrow> ms_achieved (goal_milestones (Goal_updateProgress now v g) ! i)
             \<and> ms_achievedValue (goal_milestones (Goal_updateProgress now v g) ! i)
                 = ms_targetValue (goal_milestones g ! i)
             \<and> ms_achievedDate (goal_milestones (Goal_updateProgress now v g) ! i) = Some now)
      \<and> (ms_achieved (goal_milestones g ! i)
           \<longrightarrow> goal_milestones (Goal_updateProgress now v g) ! i = goal_milestones g ! i)
      \<and> (ms_targetValue (goal_milestones g ! i) \<le> max 0 v
           \<longrightarrow> goal_milestones (Goal_updateProgress now' v (Goal_updateProgress now v g)) ! i
                 = goal_milestones (Goal_updateProgress now v g) ! i
             \<and> ms_achieved (goal_milestones (Goal_updateProgress now v g) ! i))"
    if i: "i < length (goal_milestones g)" for i
  proof -
    let ?m = "goal_milestones g ! i"
    have first: "goal_milestones (Goal_updateProgress now v g) ! i
                   = milestone_step now (max 0 v) ?m"
      using i by (simp add: Goal_updateProgress_milestones)
    have second: "goal_milestones (Goal_updateProgress now' v (Goal_updateProgress now v g)) ! i
                   = milestone_step now' (max 0 v) (milestone_step now (max 0 v) ?m)"
      using i by (simp add: Goal_updateProgress_milestones)
    show ?thesis
      unfolding first second
      by (simp add: milestone_step_achieved milestone_step_fires milestone_step_twice)
         (simp add: milestone_step_def)
  qed
  have ex: "map ms_achieved (goal_milestones (Goal_updateProgress 10 60 goal100)) = [True]
   \<and> map ms_achievedValue (goal_milestones (Goal_updateProgress 10 60 goal100)) = [50]
   \<and> map ms_achievedDate (goal_milestones (Goal_updateProgress 10 60 goal100)) = [Some 10]
   \<and> map ms_achievedDate
        (goal_milestones (Goal_updateProgress 20 60 (Goal_updateProgress 10 60 goal100)))
       = [Some 10]"
    by (simp add: Goal_updateProgress_milestones goal100_def milestone_step_def)
  from len each ex show ?thesis by blast
qed

theorem Goal_updateProgress_milestone_sweep_witness:
  "(0::nat) < length (goal_milestones goal100)
   \<and> \<not> ms_achieved (goal_milestones goal100 ! 0)
   \<and> ms_targetValue (goal_milestones goal100 ! 0) \<le> max 0 60
   \<and> ms_achievedValue (goal_milestones (Goal_updateProgress 10 60 goal100) ! 0) = 50
   \<and> ms_achievedDate (goal_milestones (Goal_updateProgress 10 60 goal100) ! 0) = Some 10
   \<and> goal_milestones (Goal_updateProgress 20 60 (Goal_updateProgress 10 60 goal100)) ! 0
       = goal_milestones (Goal_updateProgress 10 60 goal100) ! 0"
proof -
  have p: "(0::nat) < length (goal_milestones goal100)
           \<and> \<not> ms_achieved (goal_milestones goal100 ! 0)
           \<and> ms_targetValue (goal_milestones goal100 ! 0) \<le> max 0 60"
    by (simp add: goal100_def)
  from p Goal_updateProgress_milestone_sweep [of 10 60 goal100 20]
  have "ms_achievedValue (goal_milestones (Goal_updateProgress 10 60 goal100) ! 0)
          = ms_targetValue (goal_milestones goal100 ! 0)
        \<and> ms_achievedDate (goal_milestones (Goal_updateProgress 10 60 goal100) ! 0) = Some 10
        \<and> goal_milestones (Goal_updateProgress 20 60 (Goal_updateProgress 10 60 goal100)) ! 0
            = goal_milestones (Goal_updateProgress 10 60 goal100) ! 0"
    by blast
  with p show ?thesis by (simp add: goal100_def)
qed

text \<open>
  C10. \<open>Goal.updateProgress(newValue)\<close> leaves every descriptive field of the goal as it
  was: title, description, category, the target (value, unit, timeframe), start and end
  date, priority, difficulty, tags, isPublic, the reminders and the notes, as well as the
  owner, the id and \<open>createdAt\<close>; the milestones keep their number, their order, their
  titles and their target values. (What it writes is \<open>current.value\<close>,
  \<open>current.lastUpdated\<close>, \<open>status\<close>, the three achieved fields of milestones, and through
  \<open>save()\<close> the store's own \<open>updatedAt\<close> stamp.)
\<close>

theorem Goal_updateProgress_frame:
  "goal_title (Goal_updateProgress now v g) = goal_title g
   \<and> goal_description (Goal_updateProgress now v g) = goal_description g
   \<and> goal_category (Goal_updateProgress now v g) = goal_category g
   \<and> goal_target_value (Goal_updateProgress now v g) = goal_target_value g
   \<and> goal_target_unit (Goal_updateProgress now v g) = goal_target_unit g
   \<and> goal_target_timeframe (Goal_updateProgress now v g) = goal_target_timeframe g
   \<and> goal_startDate (Goal_updateProgress now v g) = goal_startDate g
   \<and> goal_endDate (Goal_updateProgress now v g) = goal_endDate g
   \<and> goal_priority (Goal_updateProgress now v g) = goal_priority g
   \<and> goal_difficulty (Goal_updateProgress now v g) = goal_difficulty g
   \<and> map ms_title (goal_milestones (Goal_updateProgress now v g))
       = map ms_title (goal_milestones g)
   \<and> map ms_targetValue (goal_milestones (Goal_updateProgress now v g))
       = map ms_targetValue (goal_milestones g)
   \<and> goal_tags (Goal_updateProgress now v g) = goal_tags g
   \<and> goal_isPublic (Goal_updateProgress now v g) = goal_isPublic g
   \<and> goal_reminders_enabled (Goal_updateProgress now v g) = goal_reminders_enabled g
   \<and> goal_reminders_frequency (Goal_updateProgress now v g) = goal_reminders_frequency g
   \<and> goal_reminders_lastReminder (Goal_updateProgress now v g) = goal_reminders_lastReminder g
   \<and> goal_notes (Goal_updateProgress now v g) = goal_notes g
   \<and> goal_id (Goal_updateProgress now v g) = goal_id g
   \<and> goal_user (Goal_updateProgress now v g) = goal_user g
   \<and> goal_createdAt (Goal_updateProgress now v g) = goal_createdAt g"
proof -
  have ms: "map ms_title (goal_milestones (Goal_updateProgress now v g))
              = map ms_title (goal_milestones g)
          \<and> map ms_targetValue (goal_milestones (Goal_updateProgress now v g))
              = map ms_targetValue (goal_milestones g)"
    by (simp add: Goal_updateProgress_milestones comp_def milestone_step_keeps)
  have rest: "Goal_updateProgress now v g
      = g\<lparr>goal_current_value := max 0 v, goal_current_lastUpdated := now,
           goal_status := goal_status (Goal_updateProgress now v g),
           goal_milestones := goal_milestones (Goal_updateProgress now v g),
           goal_updatedAt := now\<rparr>"
    by (simp add: Goal_updateProgress_def goal_save_def Let_def)
  show ?thesis
    using ms by (subst (1 2 3 4 5 6 7 8 9 10 13 14 15 16 17 18 19 20 21) rest) simp
qed

section \<open>Properties of Achievement.updateProgress and unlock\<close>

lemma Achievement_updateProgress_current:
  "progress_current (Achievement_updateProgress now p a) = max 0 p"
  by (simp add: Achievement_updateProgress_def achievement_save_def Let_def)

lemma Achievement_updateProgress_required:
  "progress_required (Achievement_updateProgress now p a) = progress_required a"
  by (simp add: Achievement_updateProgress_def achievement_save_def Let_def)

lemma Achievement_updateProgress_isUnlocked:
  "isUnlocked (Achievement_updateProgress now p a)
     \<longleftrightarrow> isUnlocked a \<or> max 0 p \<ge> progress_required a"
  by (auto simp: Achievement_updateProgress_def achievement_save_def Let_def)

lemma Achievement_updateProgress_unlockedAt:
  "unlockedAt (Achievement_updateProgress now p a) =
     (if max 0 p \<ge> progress_required a \<and> \<not> isUnlocked a then Some now else unlockedAt a)"
  by (simp add: Achievement_updateProgress_def achievement_save_def Let_def)

lemma updateProgress_calls_unlocked:
  "isUnlocked a \<Longrightarrow>
   isUnlocked (updateProgress_calls cs a) \<and> unlockedAt (updateProgress_calls cs a) = unlockedAt a"
proof (induction cs arbitrary: a)
  case Nil
  then show ?case by (simp add: updateProgress_calls_def)
next
  case (Cons c cs)
  obtain t p where c: "c = (t, p)" by (cases c)
  let ?b = "Achievement_updateProgress t p a"
  have b: "isUnlocked ?b" "unlockedAt ?b = unlockedAt a"
    using Cons.prems
    by (simp_all add: Achievement_updateProgress_isUnlocked Achievement_updateProgress_unlockedAt)
  have step: "updateProgress_calls (c # cs) a = updateProgress_calls cs ?b"
    by (simp add: updateProgress_calls_def c)
  from Cons.IH [OF b(1)] b(2) show ?case by (simp add: step)
qed

text \<open>
  C8. Once \<open>isUnlocked\<close> is true, a call of \<open>Achievement.updateProgress\<close> with any argument
  at any instant leaves \<open>isUnlocked\<close> true and \<open>unlockedAt\<close> as it was, and so does any
  sequence of such calls.
\<close>

theorem Achievement_unlock_monotone:
  "isUnlocked a \<Longrightarrow>
   isUnlocked (Achievement_updateProgress now p a)
   \<and> unlockedAt (Achievement_updateProgress now p a) = unlockedAt a
   \<and> isUnlocked (updateProgress_calls cs a)
   \<and> unlockedAt (updateProgress_calls cs a) = unlockedAt a"
  using updateProgress_calls_unlocked [of a cs]
  by (simp add: Achievement_updateProgress_isUnlocked Achievement_updateProgress_unlockedAt)

theorem Achievement_unlock_monotone_witness:
  "isUnlocked (Achievement_updateProgress 5 2 ach_carbon)
   \<and> unlockedAt (Achievement_updateProgress 5 2 ach_carbon) = Some 5
   \<and> isUnlocked (Achievement_updateProgress 9 1 (Achievement_updateProgress 5 2 ach_carbon))
   \<and> unlockedAt (Achievement_updateProgress 9 1 (Achievement_updateProgress 5 2 ach_carbon))
       = Some 5
   \<and> isUnlocked (updateProgress_calls [(9, 1), (11, 0), (12, -3)]
                   (Achievement_updateProgress 5 2 ach_carbon))"
proof -
  have u: "isUnlocked (Achievement_updateProgress 5 2 ach_carbon)"
    by (simp add: Achievement_updateProgress_isUnlocked ach_carbon_def)
  have at: "unlockedAt (Achievement_updateProgress 5 2 ach_carbon) = Some 5"
    by (simp add: Achievement_updateProgress_unlockedAt ach_carbon_def)
  from Achievement_unlock_monotone [OF u, of 9 1 "[(9, 1), (11, 0), (12, -3)]"] u at
  show ?thesis by simp
qed

text \<open>
  C4, as stated, fails: \<open>updateProgress(5)\<close> on the achievement that requires 2 flips
  \<open>isUnlocked\<close> from false to true and leaves \<open>progress.current\<close> at 5, not at 2.
\<close>

theorem Achievement_unlock_current_counterexample:
  "\<not> isUnlocked ach_carbon
   \<and> isUnlocked (Achievement_updateProgress 5 5 ach_carbon)
   \<and> progress_current (Achievement_updateProgress 5 5 ach_carbon) = 5
   \<and> progress_required (Achievement_updateProgress 5 5 ach_carbon) = 2
   \<and> progress_current (Achievement_updateProgress 5 5 ach_carbon)
       \<noteq> progress_required (Achievement_updateProgress 5 5 ach_carbon)"
  by (simp add: Achievement_updateProgress_isUnlocked Achievement_updateProgress_current
      Achievement_updateProgress_required ach_carbon_def)

text \<open>
  C4, amended. An \<open>updateProgress(newProgress)\<close> that flips \<open>isUnlocked\<close> from false to true
  leaves \<open>progress.current\<close> equal to \<open>max(0, newProgress)\<close>, which is at least
  \<open>progress.required\<close>, and equal to it exactly when \<open>max(0, newProgress)\<close> is
  \<open>progress.required\<close>; an \<open>unlock()\<close> on an achievement that is not unlocked flips the flag
  and leaves \<open>progress.current\<close> exactly equal to \<open>progress.required\<close>.
\<close>

theorem Achievement_unlock_current:
  "(\<not> isUnlocked a \<and> isUnlocked (Achievement_updateProgress now p a) \<longrightarrow>
      progress_current (Achievement_updateProgress now p a) = max 0 p
      \<and> progress_current (Achievement_updateProgress now p a)
          \<ge> progress_required (Achievement_updateProgress now p a)
      \<and> (progress_current (Achievement_updateProgress now p a)
            = progress_required (Achievement_updateProgress now p a)
          \<longleftrightarrow> max 0 p = progress_required a))
   \<and> (\<not> isUnlocked a \<longrightarrow>
        isUnlocked (unlock now a)
        \<and> progress_current (unlock now a) = progress_required (unlock now a)
        \<and> progress_required (unlock now a) = progress_required a)"
  by (auto simp: Achievement_updateProgress_isUnlocked Achievement_updateProgress_current
      Achievement_updateProgress_required unlock_def achievement_save_def)

theorem Achievement_unlock_current_witness:
  "\<not> isUnlocked ach_carbon
   \<and> isUnlocked (Achievement_updateProgress 5 5 ach_carbon)
   \<and> progress_current (Achievement_updateProgress 5 5 ach_carbon) = 5
   \<and> progress_required ach_carbon \<le> 5
   \<and> isUnlocked (unlock 5 ach_carbon)
   \<and> progress_current (unlock 5 ach_carbon) = 2"
proof -
  have n: "\<not> isUnlocked ach_carbon" by (simp add: ach_carbon_def)
  have u: "isUnlocked (Achievement_updateProgress 5 5 ach_carbon)"
    by (simp add: Achievement_updateProgress_isUnlocked ach_carbon_def)
  have r: "progress_required ach_carbon = 2" by (simp add: ach_carbon_def)
  from Achievement_unlock_current [of ach_carbon 5 5] n u r
  show ?thesis by (simp add: Achievement_updateProgress_required)
qed

section \<open>Properties of the metric evaluation\<close>

lemma calculateAchievementProgress_Inr:
  "calculateAchievementProgress cal now u st a = Inr p \<Longrightarrow>
   \<exists>raw. metric_progress cal now u st a = Inr raw \<and> p = min raw (criteria_threshold a)"
  by (auto simp: calculateAchievementProgress_def split: sum.splits)

lemma metric_progress_answers:
  "Activity_collection st = Inr acts \<Longrightarrow> Goal_collection st = Inr gs \<Longrightarrow>
   \<exists>raw. metric_progress cal now u st a = Inr raw"
  by (cases "criteria_metric a") (simp_all add: metric_progress_def)

lemma calculateAchievementProgress_carbon_example:
  "calculateAchievementProgress utc example_now user_10_7 st ach_carbon = Inr 2"
  by (simp add: calculateAchievementProgress_def metric_progress_def user_10_7_def
      ach_carbon_def)

text \<open>
  C5. Whenever \<open>calculateAchievementProgress\<close> returns a value, for any calendar, instant,
  user, store and achievement (so any metric kind and timeframe), the value is at most
  \<open>criteria.threshold\<close> and is the minimum of the raw metric value and the threshold; and
  it does return a value whenever the queries of the store answer.
\<close>

theorem calculateAchievementProgress_clamp:
  "(calculateAchievementProgress cal now u st a = Inr p \<longrightarrow>
      p \<le> criteria_threshold a
      \<and> (\<exists>raw. metric_progress cal now u st a = Inr raw \<and> p = min raw (criteria_threshold a)))
   \<and> (Activity_collection st = Inr acts \<and> Goal_collection st = Inr gs \<longrightarrow>
        (\<exists>p'. calculateAchievementProgress cal now u st a = Inr p'
              \<and> p' \<le> criteria_threshold a))"
proof -
  have clamp: "p \<le> criteria_threshold a
      \<and> (\<exists>raw. metric_progress cal now u st a = Inr raw \<and> p = min raw (criteria_threshold a))"
    if "calculateAchievementProgress cal now u st a = Inr p" for p
    using calculateAchievementProgress_Inr [OF that] by auto
  have total: "\<exists>p'. calculateAchievementProgress cal now u st a = Inr p'"
    if "Activity_collection st = Inr acts" "Goal_collection st = Inr gs"
    using metric_progress_answers [OF that, of cal now u a]
    by (auto simp: calculateAchievementProgress_def)
  from clamp total show ?thesis by blast
qed

theorem calculateAchievementProgress_clamp_witness:
  "calculateAchievementProgress utc example_now user_10_7 empty_store ach_carbon = Inr 2
   \<and> metric_progress utc example_now user_10_7 empty_store ach_carbon = Inr 3
   \<and> (2::real) \<le> criteria_threshold ach_carbon
   \<and> Activity_collection empty_store = Inr [] \<and> Goal_collection empty_store = Inr []"
proof -
  have c: "calculateAchievementProgress utc example_now user_10_7 empty_store ach_carbon = Inr 2"
    by (rule calculateAchievementProgress_carbon_example)
  have m: "metric_progress utc example_now user_10_7 empty_store ach_carbon = Inr 3"
    by (simp add: metric_progress_def user_10_7_def ach_carbon_def)
  have s: "Activity_collection empty_store = Inr [] \<and> Goal_collection empty_store = Inr []"
    by (simp add: empty_store_def)
  from calculateAchievementProgress_clamp
         [of utc example_now user_10_7 empty_store ach_carbon 2 "[]" "[]"] c
  have "(2::real) \<le> criteria_threshold ach_carbon" by blast
  with c m s show ?thesis by blast
qed

section \<open>The streak loop against the specification's streak\<close>

lemma dayActivities_nonempty:
  "filter (\<lambda>x. startOfDay cal (act_date x) = day) acts \<noteq> []
     \<longleftrightarrow> spec_dayHasActivity cal acts day"
  by (auto simp: spec_dayHasActivity_def filter_empty_conv)

lemma spec_day_Suc: "spec_day cal now (Suc j) = addDays cal (- 1) (spec_day cal now j)"
  by (simp add: spec_day_def)

lemma streak_loop_takeWhile:
  "streak_loop cal acts n (spec_day cal now i) s =
     s + length (takeWhile (\<lambda>j. spec_dayHasActivity cal acts (spec_day cal now j)) [i..<i + n])"
proof (induction n arbitrary: i s)
  case 0
  then show ?case by simp
next
  case (Suc n)
  have range: "[i..<Suc (i + n)] = i # [Suc i..<Suc (i + n)]"
    by (simp add: upt_conv_Cons)
  show ?case
  proof (cases "spec_dayHasActivity cal acts (spec_day cal now i)")
    case True
    then show ?thesis
      using Suc.IH [of "Suc i" "s + 1"]
      by (simp add: dayActivities_nonempty range spec_day_Suc del: upt_Suc)
  next
    case False
    then show ?thesis
      by (simp add: dayActivities_nonempty range del: upt_Suc)
  qed
qed

lemma streak_of_spec: "streak_of cal now acts = spec_streak cal now acts"
  using streak_loop_takeWhile [of cal acts 365 now 0 0]
  by (simp add: streak_of_def spec_streak_def spec_day_def)

lemma spec_streak_cong:
  assumes "(startOfDay cal \<circ> act_date) ` set acts' = (startOfDay cal \<circ> act_date) ` set acts"
  shows "spec_streak cal now acts' = spec_streak cal now acts"
proof -
  have "spec_dayHasActivity cal xs d \<longleftrightarrow> d \<in> (startOfDay cal \<circ> act_date) ` set xs" for xs d
    by (auto simp: spec_dayHasActivity_def)
  then have "spec_dayHasActivity cal acts' = spec_dayHasActivity cal acts"
    using assms by (intro ext) simp
  then show ?thesis by (simp add: spec_streak_def)
qed

lemma spec_streak_le: "spec_streak cal now acts \<le> 365"
proof -
  have "length (takeWhile P [0..<365]) \<le> length [0..<365]" for P :: "nat \<Rightarrow> bool"
    by (rule length_takeWhile_le)
  then show ?thesis by (simp add: spec_streak_def)
qed

lemma spec_streak_days:
  assumes j: "j < spec_streak cal now acts"
  shows "spec_dayHasActivity cal acts (spec_day cal now j)"
proof -
  let ?P = "\<lambda>j. spec_dayHasActivity cal acts (spec_day cal now j)"
  from j have j': "j < length (takeWhile ?P [0..<365])" by (simp add: spec_streak_def)
  then have "takeWhile ?P [0..<365] ! j \<in> set (takeWhile ?P [0..<365])" by (rule nth_mem)
  then have "?P (takeWhile ?P [0..<365] ! j)" by (rule set_takeWhileD [THEN conjunct2])
  moreover have "takeWhile ?P [0..<365] ! j = [0..<365] ! j" using j' by (rule takeWhile_nth)
  moreover have "j < 365" using j spec_streak_le [of cal now acts] by simp
  ultimately show ?thesis by simp
qed

lemma spec_streak_gap:
  assumes "spec_streak cal now acts < 365"
  shows "\<not> spec_dayHasActivity cal acts (spec_day cal now (spec_streak cal now acts))"
proof -
  let ?P = "\<lambda>j. spec_dayHasActivity cal acts (spec_day cal now j)"
  from assms have lt: "length (takeWhile ?P [0..<365]) < length [0..<365]"
    by (simp add: spec_streak_def)
  then have "\<not> ?P ([0..<365] ! length (takeWhile ?P [0..<365]))" by (rule nth_length_takeWhile)
  moreover have "[0..<365] ! length (takeWhile ?P [0..<365]) = length (takeWhile ?P [0..<365])"
    using lt by simp
  ultimately show ?thesis by (simp add: spec_streak_def)
qed

lemma spec_streak_zero:
  assumes "\<not> spec_dayHasActivity cal acts (startOfDay cal now)"
  shows "spec_streak cal now acts = 0"
proof -
  have "[0..<365] = 0 # [1..<365]" by (simp add: upt_conv_Cons)
  then show ?thesis using assms by (simp add: spec_streak_def spec_day_def del: upt_Suc)
qed

lemma set_Activity_find:
  "set (Activity_find uid start acts) = set (filter (activity_matches uid start) acts)"
  by (simp add: Activity_find_def)

lemma metric_progress_streak:
  "criteria_metric a = streak_days \<Longrightarrow> Activity_collection st = Inr acts \<Longrightarrow>
   metric_progress cal now u st a =
     Inr (real (spec_streak cal now (matching_activities cal now u a acts)))"
  by (simp add: metric_progress_def streak_of_spec set_Activity_find matching_activities_def
      spec_streak_cong [of cal "Activity_find uid start acts" for uid start])

lemma streak_example: "streak_of utc example_now (Activity_find 7 0 acts_streak) = 3"
  by code_simp

lemma streak_example_no_today: "streak_of utc example_now (Activity_find 7 0 acts_no_today) = 0"
  by code_simp

lemma calculateAchievementProgress_streak_example:
  "calculateAchievementProgress utc example_now user_10_7 store_streak ach_streak = Inr 3"
  using streak_example
  by (simp add: calculateAchievementProgress_def metric_progress_def startDate_of_def
      store_streak_def ach_streak_def ach_carbon_def user_10_7_def)

lemma calculateAchievementProgress_streak_example_no_today:
  "calculateAchievementProgress utc example_now user_10_7 store_no_today ach_streak = Inr 0"
  using streak_example_no_today
  by (simp add: calculateAchievementProgress_def metric_progress_def startDate_of_def
      store_no_today_def ach_streak_def ach_carbon_def user_10_7_def)

text \<open>
  C6. For an achievement on the \<open>streak_days\<close> metric, when the activity query answers,
  the metric value is the specification's streak of the matching activities (the user's
  active activities in the window of the timeframe): the number of consecutive calendar
  days, counted back from today truncated to its date, that each have at least one such
  activity. It is at most 365; each of the days counted has an activity; unless 365 days
  were counted, the next day back has none; it is 0 when today has no activity, whatever
  the earlier days hold; and the loop gives the same value on any list of activities that
  covers the same set of calendar days, so several activities on a day count once. With
  activities today (two), yesterday, two days ago and four days ago, over the lifetime
  timeframe, the result is 3; without those of today it is 0.
\<close>

theorem streak_days_metric:
  assumes "criteria_metric a = streak_days" and "Activity_collection st = Inr acts"
  shows "metric_progress cal now u st a
           = Inr (real (spec_streak cal now (matching_activities cal now u a acts)))
   \<and> spec_streak cal now (matching_activities cal now u a acts) \<le> 365
   \<and> (\<forall>j < spec_streak cal now (matching_activities cal now u a acts).
         spec_dayHasActivity cal (matching_activities cal now u a acts) (spec_day cal now j))
   \<and> (spec_streak cal now (matching_activities cal now u a acts) < 365 \<longrightarrow>
         \<not> spec_dayHasActivity cal (matching_activities cal now u a acts)
             (spec_day cal now (spec_streak cal now (matching_activities cal now u a acts))))
   \<and> (\<not> spec_dayHasActivity cal (matching_activities cal now u a acts) (startOfDay cal now)
         \<longrightarrow> metric_progress cal now u st a = Inr 0)
   \<and> (\<forall>acts'. (startOfDay cal \<circ> act_date) ` set acts'
                  = (startOfDay cal \<circ> act_date) ` set (matching_activities cal now u a acts)
         \<longrightarrow> streak_of cal now acts'
               = spec_streak cal now (matching_activities cal now u a acts))
   \<and> calculateAchievementProgress utc example_now user_10_7 store_streak ach_streak = Inr 3
   \<and> calculateAchievementProgress utc example_now user_10_7 store_no_today ach_streak = Inr 0"
proof -
  let ?M = "matching_activities cal now u a acts"
  have m: "metric_progress cal now u st a = Inr (real (spec_streak cal now ?M))"
    using assms by (rule metric_progress_streak)
  have le: "spec_streak cal now ?M \<le> 365" by (rule spec_streak_le)
  have days: "\<forall>j < spec_streak cal now ?M. spec_dayHasActivity cal ?M (spec_day cal now j)"
    using spec_streak_days by blast
  have gap: "spec_streak cal now ?M < 365 \<longrightarrow>
               \<not> spec_dayHasActivity cal ?M (spec_day cal now (spec_streak cal now ?M))"
    using spec_streak_gap by blast
  have zero: "\<not> spec_dayHasActivity cal ?M (startOfDay cal now)
                \<longrightarrow> metric_progress cal now u st a = Inr 0"
    using m spec_streak_zero [of cal ?M now] by simp
  have once: "\<forall>acts'. (startOfDay cal \<circ> act_date) ` set acts'
                          = (startOfDay cal \<circ> act_date) ` set ?M
                \<longrightarrow> streak_of cal now acts' = spec_streak cal now ?M"
  proof (intro allI impI)
    fix acts' :: "activity list"
    assume "(startOfDay cal \<circ> act_date) ` set acts' = (startOfDay cal \<circ> act_date) ` set ?M"
    then have "spec_streak cal now acts' = spec_streak cal now ?M" by (rule spec_streak_cong)
    then show "streak_of cal now acts' = spec_streak cal now ?M" by (simp only: streak_of_spec)
  qed
  show ?thesis
    using m le days gap zero once calculateAchievementProgress_streak_example
      calculateAchievementProgress_streak_example_no_today
    by (intro conjI) assumption+
qed

theorem streak_days_metric_witness:
  "criteria_metric ach_streak = streak_days
   \<and> Activity_collection store_streak = Inr acts_streak
   \<and> metric_progress utc example_now user_10_7 store_streak ach_streak = Inr 3
   \<and> spec_streak utc example_now
        (matching_activities utc example_now user_10_7 ach_streak acts_streak) = 3"
proof -
  have a: "criteria_metric ach_streak = streak_days" by (simp add: ach_streak_def)
  have s: "Activity_collection store_streak = Inr acts_streak" by (simp add: store_streak_def)
  have three: "spec_streak utc example_now
                 (matching_activities utc example_now user_10_7 ach_streak acts_streak) = 3"
    by code_simp
  have "metric_progress utc example_now user_10_7 store_streak ach_streak
          = Inr (real (spec_streak utc example_now
               (matching_activities utc example_now user_10_7 ach_streak acts_streak)))"
    by (rule streak_days_metric [OF a s, of utc example_now user_10_7, THEN conjunct1])
  then have "metric_progress utc example_now user_10_7 store_streak ach_streak = Inr 3"
    by (simp only: three of_nat_numeral)
  with a s three show ?thesis by blast
qed

section \<open>Properties of the achievement check\<close>

lemma updateProgress_not_pushed:
  assumes "\<not> isUnlocked a"
  shows "(isUnlocked (Achievement_updateProgress now p a)
          \<and> unlockedAt (Achievement_updateProgress now p a) = None) = False"
  using assms
  by (simp add: Achievement_updateProgress_isUnlocked Achievement_updateProgress_unlockedAt)

text \<open>
  On a batch of achievements that are not unlocked, as the fetch delivers them, the loop
  never adds to \<open>newlyUnlocked\<close>: the array it returns is the one it started with.
\<close>

lemma check_loop_newlyUnlocked:
  "\<forall>a \<in> set as. \<not> isUnlocked a \<Longrightarrow>
   check_loop cal now u st as newly = (docs, Inr r) \<Longrightarrow> r = newly"
proof (induction as arbitrary: newly docs)
  case Nil
  then show ?case by simp
next
  case (Cons a as)
  from Cons.prems(1) have na: "\<not> isUnlocked a" and rest: "\<forall>a \<in> set as. \<not> isUnlocked a"
    by simp_all
  show ?case
  proof (cases "calculateAchievementProgress cal now u st a")
    case (Inl e)
    with Cons.prems(2) show ?thesis by simp
  next
    case (Inr p)
    obtain docs' r' where rec: "check_loop cal now u st as newly = (docs', r')"
      by (cases "check_loop cal now u st as newly")
    from Cons.prems(2) Inr rec updateProgress_not_pushed [OF na, of now p]
    have "r' = Inr r" by (auto simp: Let_def split: if_splits)
    with Cons.IH [OF rest] rec show ?thesis by simp
  qed
qed

lemma getUserAvailableAchievements_locked:
  "\<forall>a \<in> set (getUserAvailableAchievements now userId db). \<not> isUnlocked a"
  by (simp add: getUserAvailableAchievements_def available_def)

text \<open>
  The fetch returns exactly the eligible achievements of the collection, in ascending order
  of the pair of the rarity string and \<open>createdAt\<close>.
\<close>

lemma getUserAvailableAchievements_set:
  "set (getUserAvailableAchievements now userId db) = {a \<in> set db. available now userId a}"
  by (simp add: getUserAvailableAchievements_def)

lemma getUserAvailableAchievements_sorted:
  "sorted (map (\<lambda>a. (rarity_name (ach_rarity a), ach_createdAt a))
             (getUserAvailableAchievements now userId db))"
  by (simp add: getUserAvailableAchievements_def)

text \<open>
  So whatever the collection, the user and the store: when the check answers with a
  result, its \<open>newlyUnlocked\<close> is empty and its \<open>totalUnlocked\<close> is 0.
\<close>

lemma check_never_reports:
  assumes "check cal now u st db = (docs, Updated n t)"
  shows "n = [] \<and> t = 0"
proof -
  obtain ds r where loop:
    "check_loop cal now u st (getUserAvailableAchievements now (user_id u) db) [] = (ds, r)"
    by (cases "check_loop cal now u st (getUserAvailableAchievements now (user_id u) db) []")
  show ?thesis
  proof (cases r)
    case (Inl e)
    with assms loop show ?thesis by (simp add: check_def)
  next
    case (Inr newly)
    with loop getUserAvailableAchievements_locked [of now "user_id u" db]
    have "newly = []" by (auto dest: check_loop_newlyUnlocked)
    with assms loop Inr show ?thesis by (auto simp: check_def)
  qed
qed

lemma available_single:
  "getUserAvailableAchievements example_now 7 [ach_carbon] = [ach_carbon]"
  by (simp add: getUserAvailableAchievements_def available_def ach_carbon_def)

text \<open>
  C1. The end-to-end example: the user has baseline 10 and current total 7, the achievement
  on \<open>carbon_reduction\<close> with threshold 2 and required 2 is not unlocked. The check
  computes progress 2 and \<open>updateProgress(2)\<close> unlocks the achievement, which is saved
  unlocked; yet the response carries an empty \<open>newlyUnlocked\<close> and \<open>totalUnlocked\<close> 0,
  because \<open>updateProgress\<close> has set \<open>unlockedAt\<close> before the handler tests that it is
  absent.
\<close>

theorem check_newlyUnlocked_example:
  "\<not> isUnlocked ach_carbon
   \<and> calculateAchievementProgress utc example_now user_10_7 empty_store ach_carbon = Inr 2
   \<and> check utc example_now user_10_7 empty_store [ach_carbon]
       = ([Achievement_updateProgress example_now 2 ach_carbon], Updated [] 0)
   \<and> isUnlocked (Achievement_updateProgress example_now 2 ach_carbon)
   \<and> unlockedAt (Achievement_updateProgress example_now 2 ach_carbon) = Some example_now"
proof -
  have nu: "\<not> isUnlocked ach_carbon" by (simp add: ach_carbon_def)
  have cur: "progress_current ach_carbon = 0" by (simp add: ach_carbon_def)
  have calc: "calculateAchievementProgress utc example_now user_10_7 empty_store ach_carbon = Inr 2"
    by (rule calculateAchievementProgress_carbon_example)
  have chk: "check utc example_now user_10_7 empty_store [ach_carbon]
       = ([Achievement_updateProgress example_now 2 ach_carbon], Updated [] 0)"
    by (simp add: check_def available_single user_10_7_def calc [unfolded user_10_7_def] cur
        Let_def updateProgress_not_pushed [OF nu])
  have un: "isUnlocked (Achievement_updateProgress example_now 2 ach_carbon)"
    by (simp add: Achievement_updateProgress_isUnlocked ach_carbon_def)
  have at: "unlockedAt (Achievement_updateProgress example_now 2 ach_carbon) = Some example_now"
    by (simp add: Achievement_updateProgress_unlockedAt ach_carbon_def)
  from nu calc chk un at show ?thesis by (intro conjI)
qed

lemma check_loop_abort:
  "check_loop cal now u st pre newly = (docs, Inr newly') \<Longrightarrow>
   calculateAchievementProgress cal now u st a = Inl e \<Longrightarrow>
   check_loop cal now u st (pre @ a # post) newly = (docs @ a # post, Inl e)"
proof (induction pre arbitrary: newly docs)
  case Nil
  then show ?case by simp
next
  case (Cons x pre)
  show ?case
  proof (cases "calculateAchievementProgress cal now u st x")
    case (Inl e')
    with Cons.prems(1) show ?thesis by simp
  next
    case (Inr p)
    let ?x' = "Achievement_updateProgress now p x"
    let ?n' = "if isUnlocked ?x' \<and> unlockedAt ?x' = None
               then newly @ [toResponseFormat now ?x'] else newly"
    show ?thesis
    proof (cases "p \<noteq> progress_current x")
      case True
      obtain ds r where rec: "check_loop cal now u st pre ?n' = (ds, r)"
        by (cases "check_loop cal now u st pre ?n'")
      from Cons.prems(1) Inr True rec have "docs = ?x' # ds" "r = Inr newly'"
        by (simp_all add: Let_def)
      with Cons.IH [OF _ Cons.prems(2), of ?n' ds] rec Inr True show ?thesis
        by (simp add: Let_def)
    next
      case False
      obtain ds r where rec: "check_loop cal now u st pre newly = (ds, r)"
        by (cases "check_loop cal now u st pre newly")
      from Cons.prems(1) Inr False rec have "docs = x # ds" "r = Inr newly'"
        by simp_all
      with Cons.IH [OF _ Cons.prems(2), of newly ds] rec Inr False show ?thesis
        by simp
    qed
  qed
qed

lemma available_three:
  "getUserAvailableAchievements example_now 7 [ach_carbon, ach_count, ach_carbon_later]
     = [ach_carbon, ach_count, ach_carbon_later]"
  by (simp add: getUserAvailableAchievements_def available_def ach_carbon_def ach_count_def
      ach_carbon_later_def)

lemma check_loop_first:
  "check_loop utc example_now user_10_7 failing_store [ach_carbon] []
     = ([Achievement_updateProgress example_now 2 ach_carbon], Inr [])"
proof -
  have nu: "\<not> isUnlocked ach_carbon" by (simp add: ach_carbon_def)
  have cur: "progress_current ach_carbon = 0" by (simp add: ach_carbon_def)
  show ?thesis
    by (simp add: calculateAchievementProgress_carbon_example cur Let_def
        updateProgress_not_pushed [OF nu])
qed

lemma calculateAchievementProgress_count_fails:
  "calculateAchievementProgress utc example_now user_10_7 failing_store ach_count
     = Inl QueryRejected"
  by (simp add: calculateAchievementProgress_def metric_progress_def failing_store_def
      ach_count_def ach_carbon_def)

lemma calculateAchievementProgress_later:
  "calculateAchievementProgress utc example_now user_10_7 failing_store ach_carbon_later = Inr 2"
  by (simp add: calculateAchievementProgress_def metric_progress_def user_10_7_def
      ach_carbon_later_def ach_carbon_def)

text \<open>
  C2, as stated, fails. Three eligible achievements, in the order of the fetch: the first
  on carbon reduction, the second on the activity count, the third on carbon reduction
  again; the activity query is rejected. The first is evaluated and saved; the evaluation
  of the second fails; the third, whose evaluation would succeed and would change its
  progress from 0 to 2, is left as it was; and the call answers with the server error,
  not with a result.
\<close>

theorem check_failure_counterexample:
  "check utc example_now user_10_7 failing_store [ach_carbon, ach_count, ach_carbon_later]
     = ([Achievement_updateProgress example_now 2 ach_carbon, ach_count, ach_carbon_later],
        ServerError)
   \<and> calculateAchievementProgress utc example_now user_10_7 failing_store ach_count
       = Inl QueryRejected
   \<and> calculateAchievementProgress utc example_now user_10_7 failing_store ach_carbon_later
       = Inr 2
   \<and> progress_current ach_carbon_later = 0"
proof -
  have loop: "check_loop utc example_now user_10_7 failing_store
                ([ach_carbon] @ ach_count # [ach_carbon_later]) []
              = ([Achievement_updateProgress example_now 2 ach_carbon]
                   @ ach_count # [ach_carbon_later], Inl QueryRejected)"
    using check_loop_first calculateAchievementProgress_count_fails by (rule check_loop_abort)
  have chk: "check utc example_now user_10_7 failing_store
               [ach_carbon, ach_count, ach_carbon_later]
     = ([Achievement_updateProgress example_now 2 ach_carbon, ach_count, ach_carbon_later],
        ServerError)"
    using loop by (simp add: check_def available_three [unfolded user_10_7_def] user_10_7_def)
  have cur: "progress_current ach_carbon_later = 0"
    by (simp add: ach_carbon_later_def ach_carbon_def)
  from chk calculateAchievementProgress_count_fails calculateAchievementProgress_later cur
  show ?thesis by (intro conjI)
qed

text \<open>
  C2, amended. Within one achievement check batch, a failure while evaluating the metric
  for one achievement aborts the batch: when the achievements before it in the order of
  the fetch have been evaluated without failure, they are left as the loop updated them,
  the failing achievement and every achievement after it are left as they were fetched,
  and the call answers with the server error instead of a result.
\<close>

theorem check_failure_aborts:
  assumes "getUserAvailableAchievements now (user_id u) db = pre @ a # post"
    and "check_loop cal now u st pre [] = (docs, Inr newly)"
    and "calculateAchievementProgress cal now u st a = Inl e"
  shows "check cal now u st db = (docs @ a # post, ServerError)"
proof -
  have "check_loop cal now u st (pre @ a # post) [] = (docs @ a # post, Inl e)"
    using assms(2) assms(3) by (rule check_loop_abort)
  then show ?thesis by (simp add: check_def assms(1))
qed

theorem check_failure_aborts_witness:
  "getUserAvailableAchievements example_now (user_id user_10_7)
       [ach_carbon, ach_count, ach_carbon_later]
     = [ach_carbon] @ ach_count # [ach_carbon_later]
   \<and> check_loop utc example_now user_10_7 failing_store [ach_carbon] []
       = ([Achievement_updateProgress example_now 2 ach_carbon], Inr [])
   \<and> calculateAchievementProgress utc example_now user_10_7 failing_store ach_count
       = Inl QueryRejected
   \<and> check utc example_now user_10_7 failing_store [ach_carbon, ach_count, ach_carbon_later]
       = ([Achievement_updateProgress example_now 2 ach_carbon] @ ach_count # [ach_carbon_later],
          ServerError)"
proof -
  have av: "getUserAvailableAchievements example_now (user_id user_10_7)
       [ach_carbon, ach_count, ach_carbon_later]
     = [ach_carbon] @ ach_count # [ach_carbon_later]"
    by (simp add: available_three user_10_7_def)
  from av check_loop_first calculateAchievementProgress_count_fails
    check_failure_aborts [OF av check_loop_first calculateAchievementProgress_count_fails]
  show ?thesis by (intro conjI)
qed

text \<open>
  C3. Five eligible achievements of one user, one of each rarity, created in the order
  common, uncommon, rare, epic, legendary. \<open>getUserAvailableAchievements\<close> returns them
  in the order common, epic, legendary, rare, uncommon, the ascending order of the rarity
  strings; of an uncommon achievement and a rare one created after it, the rare one comes
  first.
\<close>

theorem getUserAvailableAchievements_rarity_example:
  "map ach_rarity (getUserAvailableAchievements example_now 7 db_rarities)
     = [common, epic, legendary, rare, uncommon]
   \<and> getUserAvailableAchievements example_now 7
        [with_rarity 2 uncommon 2, with_rarity 3 rare 3]
       = [with_rarity 3 rare 3, with_rarity 2 uncommon 2]"
  by (simp add: getUserAvailableAchievements_def available_def db_rarities_def
      with_rarity_def ach_carbon_def)

end
